theory Spec2Isabelle
  imports Complex_Main "HOL-Library.Multiset" "HOL-Library.Word"
begin

unbundle bit_operations_syntax

section \<open>Values shared by the packages\<close>

text \<open>
  A Go \<open>error\<close> is represented by its message, the string \<open>err.Error()\<close> returns;
  \<open>fmt.Errorf("prefix: %w", err)\<close> is the prefix followed by the message of \<open>err\<close>.
  A \<open>time.Time\<close> is an instant, counted in nanoseconds since the Unix epoch.
\<close>

type_synonym error = string
type_synonym Time = int

text \<open>
  A \<open>float64\<close> is its IEEE 754 bit pattern: bit 63 is the sign, the 63 bits below it
  hold the exponent and the fraction. Equality of the model is equality of bit patterns,
  so \<open>+0\<close> (all bits clear) and \<open>-0\<close> (only the sign bit set) are different values. A
  pattern is a NaN when its lower 63 bits exceed those of infinity. On the other
  patterns the order of the numbers is the order of the signed magnitudes \<open>f64_key\<close>,
  in which the two zeros coincide. \<open>f64_lt\<close>, \<open>f64_eq\<close> and \<open>f64_ge\<close> are Go's operators
  \<open><\<close>, \<open>==\<close> and \<open>>=\<close>: each is false when an operand is a NaN.
\<close>

type_synonym float64 = "64 word"

definition magnitude :: "float64 \<Rightarrow> int" where
  "magnitude x = uint (x AND 0x7FFFFFFFFFFFFFFF)"

definition isNaN :: "float64 \<Rightarrow> bool" where
  "isNaN x = (magnitude x > 0x7FF0000000000000)"

definition f64_key :: "float64 \<Rightarrow> int" where
  "f64_key x = (if bit x 63 then - magnitude x else magnitude x)"

definition f64_lt :: "float64 \<Rightarrow> float64 \<Rightarrow> bool" where
  "f64_lt a b = (\<not> isNaN a \<and> \<not> isNaN b \<and> f64_key a < f64_key b)"

definition f64_eq :: "float64 \<Rightarrow> float64 \<Rightarrow> bool" where
  "f64_eq a b = (\<not> isNaN a \<and> \<not> isNaN b \<and> f64_key a = f64_key b)"

definition f64_ge :: "float64 \<Rightarrow> float64 \<Rightarrow> bool" where
  "f64_ge a b = (\<not> isNaN a \<and> \<not> isNaN b \<and> f64_key b \<le> f64_key a)"

text \<open>
  Two values are the same number when Go's \<open>==\<close> holds of them or both are NaN: they
  differ at most in the sign of a zero or in the payload of a NaN.
\<close>

definition same_number :: "float64 \<Rightarrow> float64 \<Rightarrow> bool" where
  "same_number a b = (f64_eq a b \<or> (isNaN a \<and> isNaN b))"

section \<open>Package sort\<close>

text \<open>
  \<open>sort.Float64Slice.Less\<close> is \<open>x[i] < x[j] || (isNaN(x[i]) && !isNaN(x[j]))\<close>: NaN is
  ordered before every other value. \<open>sort.Reverse\<close> swaps the arguments of \<open>Less\<close>.
\<close>

definition Float64Slice_Less :: "float64 \<Rightarrow> float64 \<Rightarrow> bool" where
  "Float64Slice_Less a b = (f64_lt a b \<or> (isNaN a \<and> \<not> isNaN b))"

definition Reverse :: "('a \<Rightarrow> 'a \<Rightarrow> bool) \<Rightarrow> 'a \<Rightarrow> 'a \<Rightarrow> bool" where
  "Reverse lt a b = lt b a"

text \<open>
  The place of a value in the order of \<open>Float64Slice\<close>: NaN below every number, the
  numbers by their signed magnitude (lemma \<open>Less_rank\<close> below).
\<close>

definition f64_rank :: "float64 \<Rightarrow> int" where
  "f64_rank x = (if isNaN x then - (2 ^ 63) else f64_key x)"

text \<open>
  The library's insertion sort, which \<open>sort.Sort\<close> runs on a slice of at most 12
  elements:
  \<^verbatim>\<open>for i := a + 1; i < b; i++ {
      for j := i; j > a && data.Less(j, j-1); j-- { data.Swap(j, j-1) } }\<close>
  The sorted prefix is held in reverse, nearest neighbour first: \<open>sift\<close> moves the new
  element to the left for as long as it is \<open>Less\<close> than its left neighbour, so elements
  that the order does not separate keep the order of the input.
\<close>

fun sift :: "('a \<Rightarrow> 'a \<Rightarrow> bool) \<Rightarrow> 'a \<Rightarrow> 'a list \<Rightarrow> 'a list" where
  "sift lt x [] = [x]"
| "sift lt x (y # ys) = (if lt x y then y # sift lt x ys else x # y # ys)"

definition insertionSort :: "('a \<Rightarrow> 'a \<Rightarrow> bool) \<Rightarrow> 'a list \<Rightarrow> 'a list" where
  "insertionSort lt xs = rev (foldl (\<lambda>prefix x. sift lt x prefix) [] xs)"

text \<open>
  On longer slices \<open>sort.Sort\<close> runs a quicksort, and it promises no more than its
  contract: when \<open>Less\<close> is a strict weak order (the transitive ordering the package
  asks for), the slice is left a permutation of itself in which no element is \<open>Less\<close>
  than an element before it. Which of several such arrangements results is not
  specified; the sort is not stable. A \<open>sorter\<close> is any function that meets this
  contract, and \<open>sort_Sort\<close> applies one.
\<close>

definition strict_weak_order :: "('a \<Rightarrow> 'a \<Rightarrow> bool) \<Rightarrow> bool" where
  "strict_weak_order lt =
     ((\<forall>a. \<not> lt a a) \<and>
      (\<forall>a b c. lt a b \<longrightarrow> lt b c \<longrightarrow> lt a c) \<and>
      (\<forall>a b c. \<not> lt a b \<longrightarrow> \<not> lt b c \<longrightarrow> \<not> lt a c))"

definition is_sort :: "(('a \<Rightarrow> 'a \<Rightarrow> bool) \<Rightarrow> 'a list \<Rightarrow> 'a list) \<Rightarrow> bool" where
  "is_sort srt =
     (\<forall>lt xs. strict_weak_order lt \<longrightarrow>
        mset (srt lt xs) = mset xs \<and> sorted_wrt (\<lambda>a b. \<not> lt b a) (srt lt xs))"

typedef sorter = "{srt :: (float64 \<Rightarrow> float64 \<Rightarrow> bool) \<Rightarrow> float64 list \<Rightarrow> float64 list. is_sort srt}"
proof
  have perm: "mset (foldl (\<lambda>prefix x. sift lt x prefix) acc xs) = mset acc + mset xs"
    for lt :: "float64 \<Rightarrow> float64 \<Rightarrow> bool" and acc xs
  proof (induction xs arbitrary: acc)
    case Nil
    show ?case by simp
  next
    case (Cons x xs)
    have "mset (sift lt x acc) = add_mset x (mset acc)" by (induction acc) simp_all
    with Cons show ?case by simp
  qed
  have step: "sorted_wrt (\<lambda>a b. \<not> lt a b) (sift lt x acc)"
    if "strict_weak_order lt" and "sorted_wrt (\<lambda>a b. \<not> lt a b) acc"
    for lt :: "float64 \<Rightarrow> float64 \<Rightarrow> bool" and x acc
    using that(2)
  proof (induction acc)
    case Nil
    show ?case by simp
  next
    case (Cons y ys)
    have set_sift: "set (sift lt x ys) = insert x (set ys)" by (induction ys) auto
    from that(1) have asym: "lt x y \<Longrightarrow> \<not> lt y x"
      unfolding strict_weak_order_def by blast
    from that(1) have neg: "\<not> lt x y \<Longrightarrow> \<not> lt y z \<Longrightarrow> \<not> lt x z" for z
      unfolding strict_weak_order_def by blast
    from Cons asym neg show ?case by (auto simp: set_sift)
  qed
  have sorted: "sorted_wrt (\<lambda>a b. \<not> lt a b) (foldl (\<lambda>prefix x. sift lt x prefix) acc xs)"
    if "strict_weak_order lt" and "sorted_wrt (\<lambda>a b. \<not> lt a b) acc"
    for lt :: "float64 \<Rightarrow> float64 \<Rightarrow> bool" and acc xs
    using that(2) by (induction xs arbitrary: acc) (simp_all add: step [OF that(1)])
  have "is_sort (insertionSort :: (float64 \<Rightarrow> float64 \<Rightarrow> bool) \<Rightarrow> float64 list \<Rightarrow> float64 list)"
    unfolding is_sort_def insertionSort_def
    by (simp add: perm sorted sorted_wrt_rev)
  then show "insertionSort \<in> {srt :: (float64 \<Rightarrow> float64 \<Rightarrow> bool) \<Rightarrow> float64 list \<Rightarrow> float64 list. is_sort srt}"
    by simp
qed

definition sort_Sort :: "sorter \<Rightarrow> (float64 \<Rightarrow> float64 \<Rightarrow> bool) \<Rightarrow> float64 list \<Rightarrow> float64 list" where
  "sort_Sort srt = Rep_sorter srt"

text \<open>The sorter that runs insertion sort: \<open>sort.Sort\<close> itself on slices of at most 12 elements.\<close>

definition shortSliceSort :: sorter where
  "shortSliceSort = Abs_sorter insertionSort"

section \<open>Package service: prices from trades\<close>

record GrinexTrade =
  ID :: int
  HID :: string
  Price :: string
  Volume :: string
  Funds :: string
  Market :: string
  CreatedAt :: string

text \<open>
  The loop of \<open>calculatePricesFromTrades\<close>. Its first argument is
  \<open>strconv.ParseFloat(_, 64)\<close>: \<open>Some\<close> of the value when the returned error is nil,
  \<open>None\<close> otherwise (the trade is logged and skipped). The string \<open>NaN\<close> is among those
  \<open>strconv.ParseFloat\<close> accepts without an error.
\<close>

fun parsePrices :: "(string \<Rightarrow> float64 option) \<Rightarrow> GrinexTrade list \<Rightarrow> float64 list" where
  "parsePrices ParseFloat [] = []"
| "parsePrices ParseFloat (trade # trades) =
     (case ParseFloat (Price trade) of
        None \<Rightarrow> parsePrices ParseFloat trades
      | Some price \<Rightarrow> price # parsePrices ParseFloat trades)"

text \<open>
  \<open>calculatePricesFromTrades\<close>, given the library's sort and \<open>strconv.ParseFloat\<close>. Go's
  \<open>(0, 0, err)\<close> is \<open>Inl err\<close>.
\<close>

definition calculatePricesFromTrades ::
    "sorter \<Rightarrow> (string \<Rightarrow> float64 option) \<Rightarrow> GrinexTrade list \<Rightarrow> error + (float64 \<times> float64)" where
  "calculatePricesFromTrades srt ParseFloat trades =
     (if length trades = 0 then Inl ''no trades to calculate prices from''
      else
        let prices = parsePrices ParseFloat trades in
        if length prices = 0 then Inl ''no valid prices found in trades''
        else
          let sorted = sort_Sort srt (Reverse Float64Slice_Less) prices;
              askPrice = sorted ! 0;
              bidPrice = sorted ! (length sorted - 1);
              bidPrice = (if length sorted < 2 then askPrice else bidPrice)
          in Inr (askPrice, bidPrice))"

text \<open>
  Two results of \<open>calculatePricesFromTrades\<close> agree when they are the same error, or two
  pairs whose asks are the same number and whose bids are the same number.
\<close>

definition same_result ::
    "error + (float64 \<times> float64) \<Rightarrow> error + (float64 \<times> float64) \<Rightarrow> bool" where
  "same_result r r' =
     (case (r, r') of
        (Inl err, Inl err') \<Rightarrow> err = err'
      | (Inr (ask, bid), Inr (ask', bid')) \<Rightarrow> same_number ask ask' \<and> same_number bid bid'
      | _ \<Rightarrow> False)"

section \<open>Package service: the Grinex client\<close>

record GrinexConfig =
  BaseURL :: string
  UserAgent :: string
  Timeout :: int

record Rate =
  TradingPair :: string
  AskPrice :: float64
  BidPrice :: float64
  Timestamp :: Time

text \<open>
  The HTTP request the client builds: the URL handed to \<open>http.NewRequestWithContext\<close>,
  the query parameters added to it and the headers set on it. A response is its status
  code with what \<open>io.ReadAll(resp.Body)\<close> returns: the bytes read and the read error.
\<close>

record Request =
  Method :: string
  URL :: string
  Params :: "(string \<times> string) list"
  Header :: "(string \<times> string) list"

record Response =
  StatusCode :: int
  Body :: string
  BodyErr :: "error option"

text \<open>
  What one call sees of the library and of the outside world:
  \<^item> \<open>NewRequestWithContext method url\<close>: the error of \<open>http.NewRequestWithContext\<close>, if any;
  \<^item> \<open>Do\<close>: \<open>g.client.Do(req)\<close>, the exchange with the exchange's server (an error covers
    connection failures, the client timeout and a cancelled context);
  \<^item> \<open>Unmarshal\<close>: \<open>json.Unmarshal(body, &trades)\<close>;
  \<^item> \<open>ParseFloat\<close>: \<open>strconv.ParseFloat(_, 64)\<close>, \<open>None\<close> when it returns an error;
  \<^item> \<open>Sort\<close>: the sort behind \<open>sort.Sort\<close>;
  \<^item> \<open>ParseRFC3339\<close>: \<open>time.Parse(time.RFC3339, _)\<close>, \<open>None\<close> when it returns an error;
  \<^item> \<open>Now\<close>: what \<open>time.Now()\<close> returns inside \<open>GetUSDTRate\<close>.
\<close>

record Env =
  NewRequestWithContext :: "string \<Rightarrow> string \<Rightarrow> error option"
  Do :: "Request \<Rightarrow> error + Response"
  Unmarshal :: "string \<Rightarrow> error + GrinexTrade list"
  ParseFloat :: "string \<Rightarrow> float64 option"
  Sort :: sorter
  ParseRFC3339 :: "string \<Rightarrow> Time option"
  Now :: Time

text \<open>The verb \<open>%d\<close> of \<open>fmt\<close> on an \<open>int\<close>: decimal digits, with a sign when negative.\<close>

fun digits10 :: "nat \<Rightarrow> string" where
  "digits10 n =
     (if n < 10 then [''0123456789'' ! n]
      else digits10 (n div 10) @ [''0123456789'' ! (n mod 10)])"

declare digits10.simps [simp del]

definition itoa :: "int \<Rightarrow> string" where
  "itoa i = (if i < 0 then CHR ''-'' # digits10 (nat (- i)) else digits10 (nat i))"

text \<open>The request of \<open>GetUSDTRate\<close> and the request of \<open>HealthCheck\<close>.\<close>

definition tradesRequest :: "GrinexConfig \<Rightarrow> Request" where
  "tradesRequest config =
     \<lparr>Method = ''GET'', URL = BaseURL config @ ''/api/v2/trades'',
      Params = [(''market'', ''usdtrub''), (''limit'', ''100'')],
      Header = [(''User-Agent'', UserAgent config), (''Accept'', ''application/json'')]\<rparr>"

definition marketsRequest :: "GrinexConfig \<Rightarrow> Request" where
  "marketsRequest config =
     \<lparr>Method = ''GET'', URL = BaseURL config @ ''/api/v2/markets'',
      Params = [],
      Header = [(''User-Agent'', UserAgent config)]\<rparr>"

definition GetUSDTRate :: "Env \<Rightarrow> GrinexConfig \<Rightarrow> error + Rate" where
  "GetUSDTRate env config =
     (case NewRequestWithContext env ''GET'' (BaseURL config @ ''/api/v2/trades'') of
        Some err \<Rightarrow> Inl (''failed to create request: '' @ err)
      | None \<Rightarrow>
         (case Do env (tradesRequest config) of
            Inl err \<Rightarrow> Inl (''failed to make request: '' @ err)
          | Inr resp \<Rightarrow>
             if StatusCode resp \<noteq> 200 then
               Inl (''API request failed with status '' @ itoa (StatusCode resp)
                    @ '': '' @ Body resp)
             else
               (case BodyErr resp of
                  Some err \<Rightarrow> Inl (''failed to read response body: '' @ err)
                | None \<Rightarrow>
                   (case Unmarshal env (Body resp) of
                      Inl err \<Rightarrow> Inl (''failed to unmarshal response: '' @ err)
                    | Inr trades \<Rightarrow>
                       if length trades = 0 then Inl ''no trades data available''
                       else
                         (case calculatePricesFromTrades (Sort env) (ParseFloat env) trades of
                            Inl err \<Rightarrow>
                              Inl (''failed to calculate prices from trades: '' @ err)
                          | Inr (askPrice, bidPrice) \<Rightarrow>
                             (let latestTrade = trades ! 0;
                                  timestamp =
                                    (case ParseRFC3339 env (CreatedAt latestTrade) of
                                       Some t \<Rightarrow> t
                                     | None \<Rightarrow> Now env)
                              in Inr \<lparr>TradingPair = ''USDT/RUB'',
                                      AskPrice = askPrice,
                                      BidPrice = bidPrice,
                                      Timestamp = timestamp\<rparr>))))))"

definition GrinexService_HealthCheck :: "Env \<Rightarrow> GrinexConfig \<Rightarrow> error option" where
  "GrinexService_HealthCheck env config =
     (case NewRequestWithContext env ''GET'' (BaseURL config @ ''/api/v2/markets'') of
        Some err \<Rightarrow> Some (''failed to create health check request: '' @ err)
      | None \<Rightarrow>
         (case Do env (marketsRequest config) of
            Inl err \<Rightarrow> Some (''health check request failed: '' @ err)
          | Inr resp \<Rightarrow>
             if StatusCode resp \<noteq> 200 then
               Some (''health check failed with status '' @ itoa (StatusCode resp))
             else None))"

section \<open>Package database\<close>

record RateRecord =
  rec_ID :: int
  rec_TradingPair :: string
  rec_AskPrice :: float64
  rec_BidPrice :: float64
  rec_Timestamp :: Time
  rec_CreatedAt :: Time

text \<open>
  What \<open>d.db.QueryRow(...).Scan(...)\<close> does. \<open>(*Row).Scan\<close> returns the error of the query
  if there is one, \<open>sql.ErrNoRows\<close> if there is no row, then copies the row into the
  destinations with \<open>rows.Scan\<close>, and last returns the error of \<open>rows.Close()\<close>. So there
  are four outcomes:
  \<^item> \<open>Scanned row\<close>: the row is written to the destinations, and the error is nil;
  \<^item> \<open>ErrNoRows\<close>: nothing is written;
  \<^item> \<open>DriverError err\<close>: the statement or the conversion of the row failed, nothing is
    written (\<open>SaveRate\<close> scans into one destination, which a failed conversion leaves
    alone);
  \<^item> \<open>ScannedThenCloseError row err\<close>: the row is written to the destinations, and
    closing the result set then fails with \<open>err\<close>, which \<open>Scan\<close> returns.
\<close>

datatype 'a row_scan =
    Scanned 'a
  | ErrNoRows
  | DriverError error
  | ScannedThenCloseError 'a error

text \<open>
  \<open>SaveRate\<close> receives the answer of the \<open>INSERT ... RETURNING id\<close> statement and the
  record behind the pointer; it returns the error and the record as the call leaves it.
\<close>

definition SaveRate :: "int row_scan \<Rightarrow> RateRecord \<Rightarrow> error option \<times> RateRecord" where
  "SaveRate inserted record =
     (case inserted of
        Scanned new_id \<Rightarrow> (None, record\<lparr>rec_ID := new_id\<rparr>)
      | ErrNoRows \<Rightarrow> (Some (''failed to save rate: '' @ ''sql: no rows in result set''), record)
      | DriverError err \<Rightarrow> (Some (''failed to save rate: '' @ err), record)
      | ScannedThenCloseError new_id err \<Rightarrow>
          (Some (''failed to save rate: '' @ err), record\<lparr>rec_ID := new_id\<rparr>))"

text \<open>
  The query of \<open>GetLatestRate\<close> on the rows of table \<open>rates\<close>:
  \<open>WHERE trading_pair = $1 ORDER BY created_at DESC LIMIT 1\<close>. SQL leaves open which of
  several rows with the same \<open>created_at\<close> comes first; the theorems below do not depend
  on it. Every row holds a \<open>created_at\<close>, as every row \<open>SaveRate\<close> inserts does (the
  column itself admits NULL).
\<close>

text \<open>\<open>ORDER BY\<close> with the given order; rows the order does not separate come in no promised order.\<close>

fun insert_by :: "('a \<Rightarrow> 'a \<Rightarrow> bool) \<Rightarrow> 'a \<Rightarrow> 'a list \<Rightarrow> 'a list" where
  "insert_by lt x [] = [x]"
| "insert_by lt x (y # ys) =
     (if lt x y then x # y # ys else y # insert_by lt x ys)"

fun order_by :: "('a \<Rightarrow> 'a \<Rightarrow> bool) \<Rightarrow> 'a list \<Rightarrow> 'a list" where
  "order_by lt [] = []"
| "order_by lt (x # xs) = insert_by lt x (order_by lt xs)"

definition select_latest :: "RateRecord list \<Rightarrow> string \<Rightarrow> RateRecord row_scan" where
  "select_latest rates tradingPair =
     (case order_by (\<lambda>a b. rec_CreatedAt a > rec_CreatedAt b)
             (filter (\<lambda>r. rec_TradingPair r = tradingPair) rates) of
        [] \<Rightarrow> ErrNoRows
      | r # _ \<Rightarrow> Scanned r)"

text \<open>
  \<open>GetLatestRate\<close> on a database given by the error with which the driver fails the
  statement (\<open>None\<close> when the statement runs) and by the rows of the table. The record
  scanned before a failing \<open>rows.Close()\<close> is dropped like any other: the function
  returns \<open>nil\<close> with the error.
\<close>

definition GetLatestRate :: "error option \<Rightarrow> RateRecord list \<Rightarrow> string \<Rightarrow> error + RateRecord" where
  "GetLatestRate fault rates tradingPair =
     (case (case fault of
              Some err \<Rightarrow> DriverError err
            | None \<Rightarrow> select_latest rates tradingPair) of
        Scanned record \<Rightarrow> Inr record
      | ErrNoRows \<Rightarrow> Inl (''no rate found for trading pair: '' @ tradingPair)
      | DriverError err \<Rightarrow> Inl (''failed to get latest rate: '' @ err)
      | ScannedThenCloseError record err \<Rightarrow> Inl (''failed to get latest rate: '' @ err))"

text \<open>\<open>Database.HealthCheck\<close> returns what \<open>PingContext\<close> returns.\<close>

definition Database_HealthCheck :: "error option \<Rightarrow> error option" where
  "Database_HealthCheck ping = ping"

section \<open>Package server\<close>

record GetRatesResp =
  resp_TradingPair :: string
  resp_AskPrice :: float64
  resp_BidPrice :: float64
  resp_Timestamp :: Time

record HealthcheckResp =
  Status :: string
  Message :: string

text \<open>
  \<open>GetRates\<close>: \<open>created\<close> is the \<open>time.Now()\<close> read for \<open>CreatedAt\<close>, \<open>inserted\<close> the answer
  of the database to the insert. \<open>dbRecord\<close> is the record literal the function builds
  (\<open>ID\<close> keeps Go's zero value). Go's \<open>(nil, err)\<close> is \<open>Inl err\<close>.
\<close>

definition dbRecord :: "Rate \<Rightarrow> Time \<Rightarrow> RateRecord" where
  "dbRecord rate created =
     \<lparr>rec_ID = 0,
      rec_TradingPair = TradingPair rate,
      rec_AskPrice = AskPrice rate,
      rec_BidPrice = BidPrice rate,
      rec_Timestamp = Timestamp rate,
      rec_CreatedAt = created\<rparr>"

definition GetRates :: "Env \<Rightarrow> GrinexConfig \<Rightarrow> Time \<Rightarrow> int row_scan \<Rightarrow> error + GetRatesResp" where
  "GetRates env config created inserted =
     (case GetUSDTRate env config of
        Inl err \<Rightarrow> Inl (''failed to get rate from Grinex: '' @ err)
      | Inr rate \<Rightarrow>
         (case fst (SaveRate inserted (dbRecord rate created)) of
            Some err \<Rightarrow> Inl (''failed to save rate to database: '' @ err)
          | None \<Rightarrow>
              Inr \<lparr>resp_TradingPair = TradingPair rate,
                   resp_AskPrice = AskPrice rate,
                   resp_BidPrice = BidPrice rate,
                   resp_Timestamp = Timestamp rate\<rparr>))"

text \<open>
  \<open>Healthcheck\<close> returns a response and an error together; \<open>ping\<close> is the answer of the
  database to \<open>PingContext\<close>. The Grinex probe is run only after the database probe has
  succeeded.
\<close>

definition Healthcheck :: "Env \<Rightarrow> GrinexConfig \<Rightarrow> error option \<Rightarrow> HealthcheckResp \<times> error option" where
  "Healthcheck env config ping =
     (case Database_HealthCheck ping of
        Some err \<Rightarrow>
          (\<lparr>Status = ''unhealthy'',
            Message = ''Database health check failed: '' @ err\<rparr>,
           Some (''database health check failed: '' @ err))
      | None \<Rightarrow>
         (case GrinexService_HealthCheck env config of
            Some err \<Rightarrow>
              (\<lparr>Status = ''degraded'',
                Message = ''Grinex API health check failed: '' @ err\<rparr>, None)
          | None \<Rightarrow>
              (\<lparr>Status = ''healthy'', Message = ''Service is healthy''\<rparr>, None)))"

section \<open>Sample inputs\<close>

text \<open>
  Concrete inputs for the closed examples below. \<open>sampleParseFloat\<close> gives the answer of
  \<open>strconv.ParseFloat\<close> on the price strings the examples use: the bit patterns of
  81.25, 81.5, 80.75, \<open>+0\<close>, \<open>-0\<close> and of the NaN that \<open>math.NaN()\<close> returns; the strings
  \<open>invalid\<close> and \<open>not-a-number\<close> are rejected, as is every string the examples do not use.
  \<open>sampleParseRFC3339\<close> does the same for \<open>time.Parse\<close>. \<open>priced p c\<close> is a trade with
  price string \<open>p\<close> and \<open>created_at\<close> string \<open>c\<close>.
\<close>

definition sampleParseFloat :: "string \<Rightarrow> float64 option" where
  "sampleParseFloat s =
     (if s = ''81.25'' then Some 0x4054500000000000
      else if s = ''81.5'' then Some 0x4054600000000000
      else if s = ''80.75'' then Some 0x4054300000000000
      else if s = ''0'' then Some 0
      else if s = ''-0'' then Some 0x8000000000000000
      else if s = ''NaN'' then Some 0x7FF8000000000001
      else None)"

definition sampleParseRFC3339 :: "string \<Rightarrow> Time option" where
  "sampleParseRFC3339 s =
     (if s = ''2025-07-28T21:22:14+03:00'' then Some 1753726934000000000 else None)"

definition priced :: "string \<Rightarrow> string \<Rightarrow> GrinexTrade" where
  "priced p c =
     \<lparr>ID = 0, HID = [], Price = p, Volume = [], Funds = [], Market = ''usdtrub'',
      CreatedAt = c\<rparr>"

text \<open>
  An environment in which the exchange answers every request with status \<open>code\<close> and a
  body that decodes to \<open>trades\<close>, and a second one whose transport fails.
\<close>

definition sampleEnv :: "int \<Rightarrow> GrinexTrade list \<Rightarrow> Env" where
  "sampleEnv code trades =
     \<lparr>NewRequestWithContext = (\<lambda>method url. None),
      Do = (\<lambda>req. Inr \<lparr>StatusCode = code, Body = ''[...]'', BodyErr = None\<rparr>),
      Unmarshal = (\<lambda>body. Inr trades),
      ParseFloat = sampleParseFloat,
      Sort = shortSliceSort,
      ParseRFC3339 = sampleParseRFC3339,
      Now = 1761868800000000000\<rparr>"

definition offlineEnv :: Env where
  "offlineEnv =
     \<lparr>NewRequestWithContext = (\<lambda>method url. None),
      Do = (\<lambda>req. Inl ''dial tcp: connection refused''),
      Unmarshal = (\<lambda>body. Inl ''unexpected end of JSON input''),
      ParseFloat = sampleParseFloat,
      Sort = shortSliceSort,
      ParseRFC3339 = sampleParseRFC3339,
      Now = 1761868800000000000\<rparr>"

definition sampleConfig :: GrinexConfig where
  "sampleConfig =
     \<lparr>BaseURL = ''https://grinex.io'', UserAgent = ''TestAgent/1.0'',
      Timeout = 30000000000\<rparr>"

definition sampleRow :: "int \<Rightarrow> string \<Rightarrow> Time \<Rightarrow> RateRecord" where
  "sampleRow i pair created =
     \<lparr>rec_ID = i, rec_TradingPair = pair, rec_AskPrice = 0x4054600000000000,
      rec_BidPrice = 0x4054300000000000, rec_Timestamp = 1753726934000000000,
      rec_CreatedAt = created\<rparr>"

definition sampleTrades :: "GrinexTrade list" where
  "sampleTrades =
     [priced ''81.25'' ''2025-07-28T21:22:14+03:00'',
      priced ''80.75'' ''2025-07-28T21:19:53+03:00'',
      priced ''81.5'' ''2025-07-28T21:18:00+03:00'']"

section \<open>The order of the sort\<close>

text \<open>
  \<open>Float64Slice.Less\<close> compares ranks, so it and its reverse are strict weak orders; two
  values are the same number exactly when their ranks are equal.
\<close>

lemma magnitude_bounds: "0 \<le> magnitude x \<and> magnitude x < 2 ^ 63"
proof -
  have "x AND 0x7FFFFFFFFFFFFFFF \<le> 0x7FFFFFFFFFFFFFFF" by (rule word_and_le1)
  then have "uint (x AND 0x7FFFFFFFFFFFFFFF) \<le> uint (0x7FFFFFFFFFFFFFFF :: 64 word)"
    by (simp add: word_le_def)
  then show ?thesis by (simp add: magnitude_def)
qed

lemma f64_key_bounds: "- (2 ^ 63) < f64_key x \<and> f64_key x < 2 ^ 63"
  using magnitude_bounds [of x] by (simp add: f64_key_def)

lemma Less_rank: "Float64Slice_Less a b \<longleftrightarrow> f64_rank a < f64_rank b"
  using f64_key_bounds [of a] f64_key_bounds [of b]
  by (auto simp: Float64Slice_Less_def f64_lt_def f64_rank_def)

lemma desc_rank: "Reverse Float64Slice_Less a b \<longleftrightarrow> f64_rank b < f64_rank a"
  by (simp add: Reverse_def Less_rank)

lemma same_number_rank: "same_number a b \<longleftrightarrow> f64_rank a = f64_rank b"
  using f64_key_bounds [of a] f64_key_bounds [of b]
  by (auto simp: same_number_def f64_eq_def f64_rank_def)

lemma ge_rank: "\<not> isNaN a \<Longrightarrow> \<not> isNaN b \<Longrightarrow> f64_ge a b \<longleftrightarrow> f64_rank b \<le> f64_rank a"
  by (simp add: f64_ge_def f64_rank_def)

lemma desc_strict_weak_order: "strict_weak_order (Reverse Float64Slice_Less)"
  by (auto simp: strict_weak_order_def desc_rank)

section \<open>Sorters\<close>

text \<open>What every sorter guarantees on the order \<open>calculatePricesFromTrades\<close> sorts by.\<close>

lemma sort_Sort_is_sort: "is_sort (sort_Sort srt)"
  using Rep_sorter [of srt] by (simp add: sort_Sort_def)

lemma mset_sort_Sort: "mset (sort_Sort srt (Reverse Float64Slice_Less) xs) = mset xs"
  using sort_Sort_is_sort [of srt] desc_strict_weak_order by (simp add: is_sort_def)

lemma sorted_sort_Sort:
  "sorted_wrt (\<lambda>a b. \<not> Reverse Float64Slice_Less b a) (sort_Sort srt (Reverse Float64Slice_Less) xs)"
  using sort_Sort_is_sort [of srt] desc_strict_weak_order by (simp add: is_sort_def)

lemma set_sort_Sort: "set (sort_Sort srt (Reverse Float64Slice_Less) xs) = set xs"
  using mset_sort_Sort [of srt xs] by (metis set_mset_mset)

lemma length_sort_Sort: "length (sort_Sort srt (Reverse Float64Slice_Less) xs) = length xs"
  using mset_sort_Sort [of srt xs] by (metis size_mset)

lemma sort_Sort_single: "sort_Sort srt (Reverse Float64Slice_Less) [x] = [x]"
  using mset_sort_Sort [of srt "[x]"] by simp

text \<open>Insertion sort meets the contract, so \<open>shortSliceSort\<close> runs it.\<close>

lemma mset_sift: "mset (sift lt x acc) = add_mset x (mset acc)"
  by (induction acc) simp_all

lemma set_sift: "set (sift lt x acc) = insert x (set acc)"
  by (induction acc) auto

lemma sorted_sift:
  assumes "strict_weak_order lt"
  shows "sorted_wrt (\<lambda>a b. \<not> lt a b) acc \<Longrightarrow> sorted_wrt (\<lambda>a b. \<not> lt a b) (sift lt x acc)"
proof (induction acc)
  case Nil
  show ?case by simp
next
  case (Cons y ys)
  from assms have asym: "lt x y \<Longrightarrow> \<not> lt y x"
    unfolding strict_weak_order_def by blast
  from assms have neg: "\<not> lt x y \<Longrightarrow> \<not> lt y z \<Longrightarrow> \<not> lt x z" for z
    unfolding strict_weak_order_def by blast
  from Cons asym neg show ?case by (auto simp: set_sift)
qed

lemma mset_foldl_sift: "mset (foldl (\<lambda>prefix x. sift lt x prefix) acc xs) = mset acc + mset xs"
  by (induction xs arbitrary: acc) (simp_all add: mset_sift)

lemma sorted_foldl_sift:
  assumes "strict_weak_order lt"
  shows "sorted_wrt (\<lambda>a b. \<not> lt a b) acc \<Longrightarrow>
    sorted_wrt (\<lambda>a b. \<not> lt a b) (foldl (\<lambda>prefix x. sift lt x prefix) acc xs)"
  by (induction xs arbitrary: acc) (simp_all add: sorted_sift [OF assms])

lemma is_sort_insertionSort: "is_sort insertionSort"
  unfolding is_sort_def insertionSort_def
  by (simp add: mset_foldl_sift sorted_foldl_sift sorted_wrt_rev)

lemma sort_Sort_shortSliceSort: "sort_Sort shortSliceSort = insertionSort"
  by (simp add: sort_Sort_def shortSliceSort_def Abs_sorter_inverse is_sort_insertionSort)

section \<open>The order of the query\<close>

lemma set_insert_by: "set (insert_by lt x xs) = insert x (set xs)"
  by (induction xs) auto

lemma set_order_by: "set (order_by lt xs) = set xs"
  by (induction xs) (simp_all add: set_insert_by)

lemma sorted_insert_by:
  assumes tr: "\<And>a b c. lt a b \<Longrightarrow> lt b c \<Longrightarrow> lt a c"
    and irr: "\<And>a. \<not> lt a a"
  shows "sorted_wrt (\<lambda>a b. \<not> lt b a) xs \<Longrightarrow> sorted_wrt (\<lambda>a b. \<not> lt b a) (insert_by lt x xs)"
proof (induction xs)
  case Nil
  then show ?case by simp
next
  case (Cons y ys)
  show ?case
  proof (cases "lt x y")
    case True
    have "\<not> lt z x" if "z \<in> set (y # ys)" for z
    proof
      assume "lt z x"
      then have "lt z y" using True tr by blast
      with that Cons.prems irr show False by auto
    qed
    with True Cons.prems show ?thesis by simp
  next
    case False
    with Cons show ?thesis by (auto simp: set_insert_by)
  qed
qed

lemma sorted_order_by:
  assumes tr: "\<And>a b c. lt a b \<Longrightarrow> lt b c \<Longrightarrow> lt a c"
    and irr: "\<And>a. \<not> lt a a"
  shows "sorted_wrt (\<lambda>a b. \<not> lt b a) (order_by lt xs)"
  by (induction xs) (simp_all add: sorted_insert_by [OF tr irr])

section \<open>Prices from trades\<close>

text \<open>The loop collects, in order, the prices of the trades whose price string parses.\<close>

lemma parsePrices_conv:
  "parsePrices pf ts = map (\<lambda>t. the (pf (Price t))) (filter (\<lambda>t. pf (Price t) \<noteq> None) ts)"
  by (induction ts) (auto split: option.splits)

lemma set_parsePrices: "set (parsePrices pf ts) = {p. \<exists>t\<in>set ts. pf (Price t) = Some p}"
  by (induction ts) (auto split: option.splits)

lemma parsePrices_Nil_iff: "parsePrices pf ts = [] \<longleftrightarrow> (\<forall>t\<in>set ts. pf (Price t) = None)"
  by (induction ts) (auto split: option.splits)

lemma parsePrices_append: "parsePrices pf (xs @ ys) = parsePrices pf xs @ parsePrices pf ys"
  by (induction xs) (auto split: option.splits)

lemma mset_parsePrices:
  "mset ts = mset ts' \<Longrightarrow> mset (parsePrices pf ts) = mset (parsePrices pf ts')"
proof -
  assume eq: "mset ts = mset ts'"
  have "mset (parsePrices pf ts) =
      image_mset (\<lambda>t. the (pf (Price t))) (filter_mset (\<lambda>t. pf (Price t) \<noteq> None) (mset ts))" for ts
    unfolding parsePrices_conv by simp
  with eq show ?thesis by simp
qed

text \<open>The first and the last element of a sorted list bound all the others.\<close>

lemma sorted_wrt_nth0:
  "sorted_wrt R xs \<Longrightarrow> xs \<noteq> [] \<Longrightarrow> x \<in> set xs \<Longrightarrow> x = xs ! 0 \<or> R (xs ! 0) x"
  by (cases xs) auto

lemma sorted_wrt_last:
  "sorted_wrt R xs \<Longrightarrow> xs \<noteq> [] \<Longrightarrow> x \<in> set xs \<Longrightarrow>
   x = xs ! (length xs - 1) \<or> R x (xs ! (length xs - 1))"
proof (induction xs)
  case Nil
  then show ?case by simp
next
  case (Cons y ys)
  show ?case
  proof (cases "ys = []")
    case True
    with Cons.prems show ?thesis by simp
  next
    case False
    then have nth: "(y # ys) ! (length (y # ys) - 1) = ys ! (length ys - 1)"
      by (cases ys) simp_all
    have last_in: "ys ! (length ys - 1) \<in> set ys" using False by simp
    show ?thesis
    proof (cases "x = y")
      case True
      with Cons.prems(1) last_in nth show ?thesis by auto
    next
      case neq: False
      with Cons.prems have "x \<in> set ys" by simp
      with Cons.IH Cons.prems(1) False nth show ?thesis by auto
    qed
  qed
qed

text \<open>
  After the descending sort the element at index 0 has the greatest rank and the last
  element the least, whichever sorter ran.
\<close>

lemma sorted_first_rank:
  assumes "x \<in> set xs"
  shows "f64_rank x \<le> f64_rank (sort_Sort srt (Reverse Float64Slice_Less) xs ! 0)"
proof -
  let ?s = "sort_Sort srt (Reverse Float64Slice_Less) xs"
  from assms have x: "x \<in> set ?s" by (simp add: set_sort_Sort)
  then have ne: "?s \<noteq> []" by auto
  from sorted_wrt_nth0 [OF sorted_sort_Sort ne x] show ?thesis
    by (auto simp: desc_rank)
qed

lemma sorted_last_rank:
  assumes "x \<in> set xs"
  shows "f64_rank (sort_Sort srt (Reverse Float64Slice_Less) xs ! (length xs - 1)) \<le> f64_rank x"
proof -
  let ?s = "sort_Sort srt (Reverse Float64Slice_Less) xs"
  from assms have x: "x \<in> set ?s" by (simp add: set_sort_Sort)
  then have ne: "?s \<noteq> []" by auto
  from sorted_wrt_last [OF sorted_sort_Sort ne x] show ?thesis
    by (auto simp: desc_rank length_sort_Sort)
qed

lemma sorted_first_in:
  "xs \<noteq> [] \<Longrightarrow> sort_Sort srt (Reverse Float64Slice_Less) xs ! 0 \<in> set xs"
  using nth_mem [of 0 "sort_Sort srt (Reverse Float64Slice_Less) xs"]
  by (simp add: length_sort_Sort set_sort_Sort)

lemma sorted_last_in:
  "xs \<noteq> [] \<Longrightarrow> sort_Sort srt (Reverse Float64Slice_Less) xs ! (length xs - 1) \<in> set xs"
  using nth_mem [of "length xs - 1" "sort_Sort srt (Reverse Float64Slice_Less) xs"]
  by (cases xs) (simp_all add: length_sort_Sort set_sort_Sort)

text \<open>The two error returns and the successful return of \<open>calculatePricesFromTrades\<close>.\<close>

lemma calc_success:
  assumes "parsePrices pf trades \<noteq> []"
  shows "calculatePricesFromTrades srt pf trades =
    Inr (sort_Sort srt (Reverse Float64Slice_Less) (parsePrices pf trades) ! 0,
         sort_Sort srt (Reverse Float64Slice_Less) (parsePrices pf trades) !
           (length (parsePrices pf trades) - 1))"
proof -
  from assms have ne: "trades \<noteq> []" by auto
  let ?s = "sort_Sort srt (Reverse Float64Slice_Less) (parsePrices pf trades)"
  have len: "length ?s = length (parsePrices pf trades)" by (rule length_sort_Sort)
  have "length ?s < 2 \<Longrightarrow> ?s ! 0 = ?s ! (length ?s - 1)"
    by (cases ?s) auto
  with assms ne len show ?thesis
    by (auto simp: calculatePricesFromTrades_def Let_def)
qed

lemma calc_Nil: "calculatePricesFromTrades srt pf [] = Inl ''no trades to calculate prices from''"
  by (simp add: calculatePricesFromTrades_def)

lemma calc_no_valid:
  "trades \<noteq> [] \<Longrightarrow> parsePrices pf trades = [] \<Longrightarrow>
   calculatePricesFromTrades srt pf trades = Inl ''no valid prices found in trades''"
  by (simp add: calculatePricesFromTrades_def)

text \<open>
  Claim C4. Extraction fails with the error \<open>no trades to calculate prices from\<close> exactly
  when it is given no trade, with the error \<open>no valid prices found in trades\<close> exactly
  when the list is not empty and the price string of every trade is rejected by
  \<open>ParseFloat\<close>, and it succeeds in every other case: when the list holds at least one
  trade whose price string parses.
\<close>

theorem calculatePricesFromTrades_failures:
  "(calculatePricesFromTrades srt pf trades = Inl ''no trades to calculate prices from''
      \<longleftrightarrow> trades = []) \<and>
   (calculatePricesFromTrades srt pf trades = Inl ''no valid prices found in trades''
      \<longleftrightarrow> trades \<noteq> [] \<and> (\<forall>t\<in>set trades. pf (Price t) = None)) \<and>
   ((\<exists>ask bid. calculatePricesFromTrades srt pf trades = Inr (ask, bid))
      \<longleftrightarrow> trades \<noteq> [] \<and> (\<exists>t\<in>set trades. pf (Price t) \<noteq> None))"
proof (cases "trades = []")
  case True
  then show ?thesis by (simp add: calc_Nil)
next
  case ne: False
  show ?thesis
  proof (cases "parsePrices pf trades = []")
    case True
    with ne have "calculatePricesFromTrades srt pf trades = Inl ''no valid prices found in trades''"
      by (rule calc_no_valid)
    with ne True show ?thesis by (simp add: parsePrices_Nil_iff)
  next
    case False
    from calc_success [OF False, of srt] ne False show ?thesis
      by (simp add: parsePrices_Nil_iff)
  qed
qed

theorem calculatePricesFromTrades_failures_witness:
  "calculatePricesFromTrades shortSliceSort sampleParseFloat []
     = Inl ''no trades to calculate prices from'' \<and>
   calculatePricesFromTrades shortSliceSort sampleParseFloat [priced ''not-a-number'' []]
     = Inl ''no valid prices found in trades'' \<and>
   (\<exists>ask bid. calculatePricesFromTrades shortSliceSort sampleParseFloat
       [priced ''invalid'' [], priced ''81.25'' []] = Inr (ask, bid))"
  using calculatePricesFromTrades_failures [of shortSliceSort sampleParseFloat "[]"]
    calculatePricesFromTrades_failures
      [of shortSliceSort sampleParseFloat "[priced ''not-a-number'' []]"]
    calculatePricesFromTrades_failures
      [of shortSliceSort sampleParseFloat "[priced ''invalid'' [], priced ''81.25'' []]"]
  by (simp add: sampleParseFloat_def priced_def)

text \<open>
  Claim C7. When exactly one trade of the list (the one at index \<open>i\<close>) has a price string
  that parses, to the value \<open>p\<close>, and every other trade is skipped, extraction succeeds
  and returns \<open>p\<close> both as ask and as bid.
\<close>

theorem single_price_ask_eq_bid:
  assumes "i < length trades"
    and "pf (Price (trades ! i)) = Some p"
    and "\<forall>j<length trades. j \<noteq> i \<longrightarrow> pf (Price (trades ! j)) = None"
  shows "calculatePricesFromTrades srt pf trades = Inr (p, p)"
proof -
  have split: "trades = take i trades @ trades ! i # drop (Suc i) trades"
    using assms(1) by (rule id_take_nth_drop)
  have "pf (Price t) = None" if "t \<in> set (take i trades)" for t
  proof -
    from that obtain j where "j < i" "j < length trades" "t = trades ! j"
      by (auto simp: in_set_conv_nth)
    with assms(3) show ?thesis by auto
  qed
  then have before: "parsePrices pf (take i trades) = []"
    by (simp add: parsePrices_Nil_iff)
  have "pf (Price t) = None" if "t \<in> set (drop (Suc i) trades)" for t
  proof -
    from that obtain j where "j < length trades - Suc i" "t = trades ! (Suc i + j)"
      by (auto simp: in_set_conv_nth)
    with assms(3) show ?thesis by auto
  qed
  then have after: "parsePrices pf (drop (Suc i) trades) = []"
    by (simp add: parsePrices_Nil_iff)
  have "parsePrices pf trades = parsePrices pf (take i trades @ trades ! i # drop (Suc i) trades)"
    using split by simp
  also have "\<dots> = [p]"
    using before after assms(2) by (simp add: parsePrices_append)
  finally have prices: "parsePrices pf trades = [p]" .
  then have "parsePrices pf trades \<noteq> []" by simp
  from calc_success [OF this, of srt] prices show ?thesis by (simp add: sort_Sort_single)
qed

theorem single_price_ask_eq_bid_witness:
  "(1::nat) < length [priced ''invalid'' [], priced ''81.25'' []] \<and>
   sampleParseFloat (Price ([priced ''invalid'' [], priced ''81.25'' []] ! 1))
     = Some 0x4054500000000000 \<and>
   sampleParseFloat (Price ([priced ''invalid'' [], priced ''81.25'' []] ! 0)) = None \<and>
   calculatePricesFromTrades shortSliceSort sampleParseFloat
       [priced ''invalid'' [], priced ''81.25'' []]
     = Inr (0x4054500000000000, 0x4054500000000000)"
proof -
  let ?ts = "[priced ''invalid'' [], priced ''81.25'' []]"
  have h1: "(1::nat) < length ?ts" by simp
  have h2: "sampleParseFloat (Price (?ts ! 1)) = Some 0x4054500000000000"
    by (simp add: sampleParseFloat_def priced_def)
  have h0: "sampleParseFloat (Price (?ts ! 0)) = None"
    by (simp add: sampleParseFloat_def priced_def)
  have h3: "\<forall>j<length ?ts. j \<noteq> 1 \<longrightarrow> sampleParseFloat (Price (?ts ! j)) = None"
    by (simp add: sampleParseFloat_def priced_def less_Suc_eq)
  from single_price_ask_eq_bid [OF h1 h2 h3, of shortSliceSort] h1 h2 h0 show ?thesis by simp
qed

text \<open>
  When no price string parses to a NaN, the ask is one of the parsed prices and is \<open>>=\<close>
  each of them, the bid is one of the parsed prices and each of them is \<open>>=\<close> it, and
  ask \<open>>=\<close> bid.
\<close>

lemma ask_max_bid_min:
  assumes "trades \<noteq> []"
    and "\<exists>t\<in>set trades. pf (Price t) \<noteq> None"
    and "\<forall>t\<in>set trades. \<forall>p. pf (Price t) = Some p \<longrightarrow> \<not> isNaN p"
  shows "\<exists>ask bid. calculatePricesFromTrades srt pf trades = Inr (ask, bid) \<and>
      (\<exists>t\<in>set trades. pf (Price t) = Some ask) \<and>
      (\<forall>t\<in>set trades. \<forall>p. pf (Price t) = Some p \<longrightarrow> f64_ge ask p) \<and>
      (\<exists>t\<in>set trades. pf (Price t) = Some bid) \<and>
      (\<forall>t\<in>set trades. \<forall>p. pf (Price t) = Some p \<longrightarrow> f64_ge p bid) \<and>
      f64_ge ask bid"
proof -
  let ?ps = "parsePrices pf trades"
  let ?s = "sort_Sort srt (Reverse Float64Slice_Less) ?ps"
  from assms(2) have ne: "?ps \<noteq> []" by (simp add: parsePrices_Nil_iff)
  have set_ps: "set ?ps = {p. \<exists>t\<in>set trades. pf (Price t) = Some p}"
    by (rule set_parsePrices)
  have nonan: "\<not> isNaN p" if "p \<in> set ?ps" for p
    using that assms(3) unfolding set_ps by auto
  let ?ask = "?s ! 0" and ?bid = "?s ! (length ?ps - 1)"
  have ask_in: "?ask \<in> set ?ps" using ne by (rule sorted_first_in)
  have bid_in: "?bid \<in> set ?ps" using ne by (rule sorted_last_in)
  have ask_ge: "f64_ge ?ask p" if "p \<in> set ?ps" for p
    using sorted_first_rank [OF that, of srt] nonan [OF that] nonan [OF ask_in]
    by (simp add: ge_rank)
  have bid_le: "f64_ge p ?bid" if "p \<in> set ?ps" for p
    using sorted_last_rank [OF that, of srt] nonan [OF that] nonan [OF bid_in]
    by (simp add: ge_rank)
  have res: "calculatePricesFromTrades srt pf trades = Inr (?ask, ?bid)"
    by (rule calc_success [OF ne])
  show ?thesis
  proof (intro exI conjI)
    show "calculatePricesFromTrades srt pf trades = Inr (?ask, ?bid)" by (rule res)
    show "\<exists>t\<in>set trades. pf (Price t) = Some ?ask" using ask_in unfolding set_ps by simp
    show "\<exists>t\<in>set trades. pf (Price t) = Some ?bid" using bid_in unfolding set_ps by simp
    show "\<forall>t\<in>set trades. \<forall>p. pf (Price t) = Some p \<longrightarrow> f64_ge ?ask p"
      using ask_ge unfolding set_ps by auto
    show "\<forall>t\<in>set trades. \<forall>p. pf (Price t) = Some p \<longrightarrow> f64_ge p ?bid"
      using bid_le unfolding set_ps by auto
    show "f64_ge ?ask ?bid" using ask_ge [OF bid_in] .
  qed
qed

text \<open>
  Claim C2 says that for every list with at least one price that parses, the ask is the
  maximum of the parsed prices, the bid their minimum, and ask \<open>>=\<close> bid. The code does
  not keep to it when a price string is \<open>NaN\<close>: \<open>strconv.ParseFloat\<close> returns no error
  for it, so the loop keeps the value; \<open>Float64Slice\<close> orders NaN below every number, so
  the descending sort, whichever algorithm runs, leaves it last. For the prices \<open>NaN\<close>
  and \<open>81.25\<close> the call succeeds with ask 81.25 and a NaN as bid, which is the lowest
  price of no list, and \<open>81.25 >= NaN\<close> is false.
\<close>

theorem NaN_price_becomes_bid:
  "calculatePricesFromTrades srt sampleParseFloat [priced ''NaN'' [], priced ''81.25'' []]
     = Inr (0x4054500000000000, 0x7FF8000000000001) \<and>
   isNaN 0x7FF8000000000001 \<and>
   \<not> f64_ge 0x4054500000000000 0x7FF8000000000001"
proof -
  let ?ts = "[priced ''NaN'' [], priced ''81.25'' []]"
  let ?n = "0x7FF8000000000001 :: float64" and ?v = "0x4054500000000000 :: float64"
  have ps: "parsePrices sampleParseFloat ?ts = [?n, ?v]"
    by (simp add: sampleParseFloat_def priced_def)
  let ?s = "sort_Sort srt (Reverse Float64Slice_Less) [?n, ?v]"
  have nan: "isNaN ?n" and num: "\<not> isNaN ?v"
    by (simp_all add: isNaN_def magnitude_def)
  have rk: "f64_rank ?n < f64_rank ?v"
    using nan num f64_key_bounds [of ?v] by (simp add: f64_rank_def)
  have "?s ! 0 \<in> set [?n, ?v]" by (rule sorted_first_in) simp
  moreover have "f64_rank ?v \<le> f64_rank (?s ! 0)" by (rule sorted_first_rank) simp
  ultimately have first: "?s ! 0 = ?v" using rk by auto
  have "?s ! (length [?n, ?v] - 1) \<in> set [?n, ?v]" by (rule sorted_last_in) simp
  moreover have "f64_rank (?s ! (length [?n, ?v] - 1)) \<le> f64_rank ?n"
    by (rule sorted_last_rank) simp
  ultimately have last: "?s ! (length [?n, ?v] - 1) = ?n" using rk by auto
  have "parsePrices sampleParseFloat ?ts \<noteq> []" using ps by simp
  from calc_success [OF this, of srt] ps first last
  have "calculatePricesFromTrades srt sampleParseFloat ?ts = Inr (?v, ?n)" by simp
  with nan show ?thesis by (simp add: f64_ge_def)
qed

text \<open>
  Claim C6, amended. Two trade lists that are permutations of each other give results
  that agree: the same error, or asks that are the same number and bids that are the
  same number (equal under Go's \<open>==\<close>, or both NaN). The values themselves may differ
  in the sign of a zero.
\<close>

theorem permutation_same_numbers:
  assumes "mset trades = mset trades'"
  shows "same_result (calculatePricesFromTrades srt pf trades)
           (calculatePricesFromTrades srt pf trades')"
proof -
  let ?ps = "parsePrices pf trades" and ?ps' = "parsePrices pf trades'"
  let ?s = "sort_Sort srt (Reverse Float64Slice_Less) ?ps"
  let ?s' = "sort_Sort srt (Reverse Float64Slice_Less) ?ps'"
  from assms have nil: "trades = [] \<longleftrightarrow> trades' = []" by (metis mset_zero_iff)
  have ms: "mset ?ps = mset ?ps'" using assms by (rule mset_parsePrices)
  then have pnil: "?ps = [] \<longleftrightarrow> ?ps' = []" by (metis mset_zero_iff)
  from ms have set_eq: "set ?ps = set ?ps'" by (rule mset_eq_setD)
  from ms have len: "length ?ps = length ?ps'" by (metis size_mset)
  show ?thesis
  proof (cases "?ps = []")
    case True
    with pnil nil show ?thesis
      by (simp add: calculatePricesFromTrades_def same_result_def)
  next
    case False
    with pnil have ne': "?ps' \<noteq> []" by simp
    have "f64_rank (?s ! 0) \<le> f64_rank (?s' ! 0)"
      using sorted_first_in [OF False, of srt] set_eq by (intro sorted_first_rank) simp
    moreover have "f64_rank (?s' ! 0) \<le> f64_rank (?s ! 0)"
      using sorted_first_in [OF ne', of srt] set_eq by (intro sorted_first_rank) simp
    ultimately have ask: "same_number (?s ! 0) (?s' ! 0)" by (simp add: same_number_rank)
    have "f64_rank (?s ! (length ?ps - 1)) \<le> f64_rank (?s' ! (length ?ps' - 1))"
      using sorted_last_in [OF ne', of srt] set_eq by (intro sorted_last_rank) simp
    moreover have "f64_rank (?s' ! (length ?ps' - 1)) \<le> f64_rank (?s ! (length ?ps - 1))"
      using sorted_last_in [OF False, of srt] set_eq by (intro sorted_last_rank) simp
    ultimately have bid: "same_number (?s ! (length ?ps - 1)) (?s' ! (length ?ps' - 1))"
      by (simp add: same_number_rank)
    from calc_success [OF False, of srt] calc_success [OF ne', of srt] ask bid
    show ?thesis by (simp add: same_result_def)
  qed
qed

text \<open>The definitions that evaluate a sort of concrete bit patterns.\<close>

lemmas f64_eval =
  sort_Sort_shortSliceSort insertionSort_def Reverse_def Float64Slice_Less_def
  f64_lt_def isNaN_def f64_key_def magnitude_def

theorem permutation_same_numbers_witness:
  "mset [priced ''81.25'' [], priced ''81.5'' [], priced ''80.75'' []]
     = mset [priced ''80.75'' [], priced ''81.25'' [], priced ''81.5'' []] \<and>
   same_result
     (calculatePricesFromTrades shortSliceSort sampleParseFloat
        [priced ''81.25'' [], priced ''81.5'' [], priced ''80.75'' []])
     (calculatePricesFromTrades shortSliceSort sampleParseFloat
        [priced ''80.75'' [], priced ''81.25'' [], priced ''81.5'' []]) \<and>
   calculatePricesFromTrades shortSliceSort sampleParseFloat
       [priced ''81.25'' [], priced ''81.5'' [], priced ''80.75'' []]
     = Inr (0x4054600000000000, 0x4054300000000000) \<and>
   calculatePricesFromTrades shortSliceSort sampleParseFloat
       [priced ''80.75'' [], priced ''81.25'' [], priced ''81.5'' []]
     = Inr (0x4054600000000000, 0x4054300000000000)"
proof -
  have h: "mset [priced ''81.25'' [], priced ''81.5'' [], priced ''80.75'' []]
     = mset [priced ''80.75'' [], priced ''81.25'' [], priced ''81.5'' []]"
    by simp
  have v: "calculatePricesFromTrades shortSliceSort sampleParseFloat
       [priced ''81.25'' [], priced ''81.5'' [], priced ''80.75'' []]
     = Inr (0x4054600000000000, 0x4054300000000000)"
    by (simp add: calculatePricesFromTrades_def sampleParseFloat_def priced_def f64_eval)
  have v': "calculatePricesFromTrades shortSliceSort sampleParseFloat
       [priced ''80.75'' [], priced ''81.25'' [], priced ''81.5'' []]
     = Inr (0x4054600000000000, 0x4054300000000000)"
    by (simp add: calculatePricesFromTrades_def sampleParseFloat_def priced_def f64_eval)
  from permutation_same_numbers [OF h, of shortSliceSort sampleParseFloat] h v v'
  show ?thesis by simp
qed

text \<open>
  The claim as first stated asks for the same ask and the same bid. \<open>Less\<close> does not
  separate \<open>+0\<close> from \<open>-0\<close>, and the insertion sort that \<open>sort.Sort\<close> runs on a slice of
  two leaves them in the order of the input: the prices \<open>0\<close>, \<open>-0\<close> give the ask \<open>+0\<close> and
  the bid \<open>-0\<close>, the prices \<open>-0\<close>, \<open>0\<close> give the ask \<open>-0\<close> and the bid \<open>+0\<close>.
\<close>

theorem signed_zero_permutation_counterexample:
  "mset [priced ''0'' [], priced ''-0'' []] = mset [priced ''-0'' [], priced ''0'' []] \<and>
   calculatePricesFromTrades shortSliceSort sampleParseFloat [priced ''0'' [], priced ''-0'' []]
     = Inr (0, 0x8000000000000000) \<and>
   calculatePricesFromTrades shortSliceSort sampleParseFloat [priced ''-0'' [], priced ''0'' []]
     = Inr (0x8000000000000000, 0) \<and>
   calculatePricesFromTrades shortSliceSort sampleParseFloat [priced ''-0'' [], priced ''0'' []]
     \<noteq> calculatePricesFromTrades shortSliceSort sampleParseFloat
         [priced ''0'' [], priced ''-0'' []]"
  by (simp add: calculatePricesFromTrades_def sampleParseFloat_def priced_def f64_eval)

section \<open>The Grinex client\<close>

text \<open>A sample call, and what every successful call has gone through.\<close>

lemma sample_rate:
  "GetUSDTRate (sampleEnv 200 sampleTrades) sampleConfig
   = Inr \<lparr>TradingPair = ''USDT/RUB'', AskPrice = 0x4054600000000000, BidPrice = 0x4054300000000000,
          Timestamp = 1753726934000000000\<rparr>"
  by (simp add: GetUSDTRate_def sampleEnv_def sampleConfig_def tradesRequest_def sampleTrades_def
      calculatePricesFromTrades_def sampleParseFloat_def sampleParseRFC3339_def priced_def
      f64_eval)

lemma GetUSDTRate_success:
  assumes "GetUSDTRate env config = Inr rate"
  shows "\<exists>resp trades ask bid.
      NewRequestWithContext env ''GET'' (BaseURL config @ ''/api/v2/trades'') = None \<and>
      Do env (tradesRequest config) = Inr resp \<and> StatusCode resp = 200 \<and>
      BodyErr resp = None \<and> Unmarshal env (Body resp) = Inr trades \<and> trades \<noteq> [] \<and>
      calculatePricesFromTrades (Sort env) (ParseFloat env) trades = Inr (ask, bid) \<and>
      rate = \<lparr>TradingPair = ''USDT/RUB'', AskPrice = ask, BidPrice = bid,
           Timestamp = (case ParseRFC3339 env (CreatedAt (trades ! 0)) of
                          Some t \<Rightarrow> t
                        | None \<Rightarrow> Now env)\<rparr>"
  using assms
  by (auto simp: GetUSDTRate_def split: option.splits sum.splits if_splits prod.splits)

text \<open>
  Claim C5. When the response decodes to a list of trades that is not empty and
  extraction succeeds on it, \<open>GetUSDTRate\<close> returns a rate whose timestamp is the parsed
  \<open>created_at\<close> of the trade at index 0; when that string does not parse, the timestamp
  is the current time and the call still succeeds.
\<close>

theorem timestamp_of_first_trade:
  assumes "NewRequestWithContext env ''GET'' (BaseURL config @ ''/api/v2/trades'') = None"
    and "Do env (tradesRequest config) = Inr resp"
    and "StatusCode resp = 200"
    and "BodyErr resp = None"
    and "Unmarshal env (Body resp) = Inr trades"
    and "trades \<noteq> []"
    and "calculatePricesFromTrades (Sort env) (ParseFloat env) trades = Inr (ask, bid)"
  shows "GetUSDTRate env config =
      Inr \<lparr>TradingPair = ''USDT/RUB'', AskPrice = ask, BidPrice = bid,
           Timestamp = (case ParseRFC3339 env (CreatedAt (trades ! 0)) of
                          Some t \<Rightarrow> t
                        | None \<Rightarrow> Now env)\<rparr>"
  using assms by (simp add: GetUSDTRate_def)

theorem timestamp_of_first_trade_witness:
  "GetUSDTRate (sampleEnv 200 [priced ''81.25'' ''2025-07-28T21:22:14+03:00'',
       priced ''81.5'' ''2025-07-28T21:18:00+03:00'']) sampleConfig
     = Inr \<lparr>TradingPair = ''USDT/RUB'', AskPrice = 0x4054600000000000, BidPrice = 0x4054500000000000,
            Timestamp = 1753726934000000000\<rparr> \<and>
   GetUSDTRate (sampleEnv 200 [priced ''81.25'' ''yesterday'',
       priced ''81.5'' ''2025-07-28T21:22:14+03:00'']) sampleConfig
     = Inr \<lparr>TradingPair = ''USDT/RUB'', AskPrice = 0x4054600000000000, BidPrice = 0x4054500000000000,
            Timestamp = 1761868800000000000\<rparr>"
proof -
  let ?t1 = "[priced ''81.25'' ''2025-07-28T21:22:14+03:00'',
       priced ''81.5'' ''2025-07-28T21:18:00+03:00'']"
  let ?t2 = "[priced ''81.25'' ''yesterday'', priced ''81.5'' ''2025-07-28T21:22:14+03:00'']"
  let ?resp = "\<lparr>StatusCode = 200, Body = ''[...]'', BodyErr = None\<rparr>"
  have c1: "calculatePricesFromTrades (Sort (sampleEnv 200 ?t1)) (ParseFloat (sampleEnv 200 ?t1)) ?t1
      = Inr (0x4054600000000000, 0x4054500000000000)"
    by (simp add: sampleEnv_def calculatePricesFromTrades_def sampleParseFloat_def priced_def
        f64_eval)
  have c2: "calculatePricesFromTrades (Sort (sampleEnv 200 ?t2)) (ParseFloat (sampleEnv 200 ?t2)) ?t2
      = Inr (0x4054600000000000, 0x4054500000000000)"
    by (simp add: sampleEnv_def calculatePricesFromTrades_def sampleParseFloat_def priced_def
        f64_eval)
  have r1: "GetUSDTRate (sampleEnv 200 ?t1) sampleConfig =
      Inr \<lparr>TradingPair = ''USDT/RUB'', AskPrice = 0x4054600000000000, BidPrice = 0x4054500000000000,
           Timestamp = (case ParseRFC3339 (sampleEnv 200 ?t1) (CreatedAt (?t1 ! 0)) of
                          Some t \<Rightarrow> t
                        | None \<Rightarrow> Now (sampleEnv 200 ?t1))\<rparr>"
    by (rule timestamp_of_first_trade [where resp = ?resp and trades = ?t1, OF _ _ _ _ _ _ c1])
      (simp_all add: sampleEnv_def)
  have r2: "GetUSDTRate (sampleEnv 200 ?t2) sampleConfig =
      Inr \<lparr>TradingPair = ''USDT/RUB'', AskPrice = 0x4054600000000000, BidPrice = 0x4054500000000000,
           Timestamp = (case ParseRFC3339 (sampleEnv 200 ?t2) (CreatedAt (?t2 ! 0)) of
                          Some t \<Rightarrow> t
                        | None \<Rightarrow> Now (sampleEnv 200 ?t2))\<rparr>"
    by (rule timestamp_of_first_trade [where resp = ?resp and trades = ?t2, OF _ _ _ _ _ _ c2])
      (simp_all add: sampleEnv_def)
  from r1 r2 show ?thesis
    by (simp add: sampleEnv_def sampleParseRFC3339_def priced_def)
qed

text \<open>
  Claim C10. Every rate a successful \<open>GetUSDTRate\<close> returns has the trading pair
  \<open>USDT/RUB\<close>, whatever the configuration, the response and the rest of the environment
  are.
\<close>

theorem trading_pair_fixed:
  "GetUSDTRate env config = Inr rate \<Longrightarrow> TradingPair rate = ''USDT/RUB''"
  by (drule GetUSDTRate_success) auto

theorem trading_pair_fixed_witness:
  "GetUSDTRate (sampleEnv 200 sampleTrades) sampleConfig
   = Inr \<lparr>TradingPair = ''USDT/RUB'', AskPrice = 0x4054600000000000, BidPrice = 0x4054300000000000,
          Timestamp = 1753726934000000000\<rparr> \<and>
   TradingPair \<lparr>TradingPair = ''USDT/RUB'', AskPrice = 0x4054600000000000, BidPrice = 0x4054300000000000,
          Timestamp = 1753726934000000000\<rparr> = ''USDT/RUB''"
  using trading_pair_fixed [OF sample_rate] sample_rate by simp

section \<open>The database\<close>




text \<open>The query returns a row of the pair with the greatest \<open>created_at\<close>, if there is one.\<close>

lemma select_latest_cases:
  "(select_latest rates pair = ErrNoRows \<and> (\<forall>r\<in>set rates. rec_TradingPair r \<noteq> pair)) \<or>
   (\<exists>r. select_latest rates pair = Scanned r \<and> r \<in> set rates \<and> rec_TradingPair r = pair \<and>
        (\<forall>r'\<in>set rates. rec_TradingPair r' = pair \<longrightarrow> rec_CreatedAt r' \<le> rec_CreatedAt r))"
proof -
  let ?lt = "\<lambda>a b. rec_CreatedAt a > rec_CreatedAt b"
  let ?f = "filter (\<lambda>r. rec_TradingPair r = pair) rates"
  let ?s = "order_by ?lt ?f"
  have srt: "sorted_wrt (\<lambda>a b. \<not> ?lt b a) ?s"
    by (rule sorted_order_by) auto
  have set_s: "set ?s = {r \<in> set rates. rec_TradingPair r = pair}"
    by (simp add: set_order_by)
  show ?thesis
  proof (cases ?s)
    case Nil
    with set_s have "\<forall>r\<in>set rates. rec_TradingPair r \<noteq> pair" by auto
    with Nil show ?thesis by (simp add: select_latest_def)
  next
    case (Cons r rs)
    with set_s have "r \<in> set rates" "rec_TradingPair r = pair" by auto
    moreover have "rec_CreatedAt r' \<le> rec_CreatedAt r" if "r' \<in> set rates" "rec_TradingPair r' = pair" for r'
    proof -
      from that set_s have "r' \<in> set ?s" by simp
      with Cons srt show ?thesis by auto
    qed
    ultimately show ?thesis using Cons by (auto simp: select_latest_def)
  qed
qed

text \<open>
  Claim C8. On a table with no row for the pair, \<open>GetLatestRate\<close> (its statement run by
  the driver) fails with the error \<open>no rate found for trading pair:\<close> followed by the
  pair. On a table with a row for the pair it returns a row of the table for that pair
  whose \<open>created_at\<close> is greatest. In no case, a failing driver included, does it return
  a record that is not such a row.
\<close>

theorem GetLatestRate_not_found_or_latest:
  "((\<forall>r\<in>set rates. rec_TradingPair r \<noteq> pair) \<longrightarrow>
      GetLatestRate None rates pair = Inl (''no rate found for trading pair: '' @ pair)) \<and>
   ((\<exists>r\<in>set rates. rec_TradingPair r = pair) \<longrightarrow>
      (\<exists>r. GetLatestRate None rates pair = Inr r \<and> r \<in> set rates \<and> rec_TradingPair r = pair \<and>
         (\<forall>r'\<in>set rates. rec_TradingPair r' = pair \<longrightarrow> rec_CreatedAt r' \<le> rec_CreatedAt r))) \<and>
   (\<forall>record. GetLatestRate fault rates pair = Inr record \<longrightarrow>
      fault = None \<and> record \<in> set rates \<and> rec_TradingPair record = pair)"
  using select_latest_cases [of rates pair]
  by (cases fault) (auto simp: GetLatestRate_def)

theorem GetLatestRate_not_found_or_latest_witness:
  "GetLatestRate None [] ''USDT/RUB'' = Inl ''no rate found for trading pair: USDT/RUB'' \<and>
   GetLatestRate None [sampleRow 1 ''BTC/RUB'' 9] ''USDT/RUB''
     = Inl ''no rate found for trading pair: USDT/RUB'' \<and>
   GetLatestRate None
       [sampleRow 1 ''USDT/RUB'' 10, sampleRow 2 ''BTC/RUB'' 40, sampleRow 3 ''USDT/RUB'' 30,
        sampleRow 4 ''USDT/RUB'' 20] ''USDT/RUB''
     = Inr (sampleRow 3 ''USDT/RUB'' 30)"
proof -
  let ?rows = "[sampleRow 1 ''USDT/RUB'' 10, sampleRow 2 ''BTC/RUB'' 40,
    sampleRow 3 ''USDT/RUB'' 30, sampleRow 4 ''USDT/RUB'' 20]"
  have "GetLatestRate None ?rows ''USDT/RUB'' = Inr (sampleRow 3 ''USDT/RUB'' 30)"
    by (simp add: GetLatestRate_def select_latest_def sampleRow_def)
  then show ?thesis
    using GetLatestRate_not_found_or_latest [of "[]" "''USDT/RUB''" None]
      GetLatestRate_not_found_or_latest [of "[sampleRow 1 ''BTC/RUB'' 9]" "''USDT/RUB''" None]
      GetLatestRate_not_found_or_latest [of ?rows "''USDT/RUB''" None]
    by (simp add: sampleRow_def)
qed

section \<open>The server\<close>

text \<open>
  Claim C3. When \<open>GetUSDTRate\<close> succeeds and \<open>SaveRate\<close> fails, \<open>GetRates\<close> returns the
  error of the save and no response. Whenever \<open>GetRates\<close> returns a response, the fetch
  and the save have both succeeded, and the response carries the fetched rate.
\<close>

theorem GetRates_all_or_nothing:
  "(\<forall>rate err. GetUSDTRate env config = Inr rate \<and>
        fst (SaveRate inserted (dbRecord rate created)) = Some err \<longrightarrow>
        GetRates env config created inserted = Inl (''failed to save rate to database: '' @ err)) \<and>
   (\<forall>resp. GetRates env config created inserted = Inr resp \<longrightarrow>
        (\<exists>rate. GetUSDTRate env config = Inr rate \<and>
           fst (SaveRate inserted (dbRecord rate created)) = None \<and>
           resp = \<lparr>resp_TradingPair = TradingPair rate, resp_AskPrice = AskPrice rate,
                   resp_BidPrice = BidPrice rate, resp_Timestamp = Timestamp rate\<rparr>))"
  by (auto simp: GetRates_def split: sum.splits option.splits)

theorem GetRates_all_or_nothing_witness:
  "GetUSDTRate (sampleEnv 200 sampleTrades) sampleConfig
     = Inr \<lparr>TradingPair = ''USDT/RUB'', AskPrice = 0x4054600000000000, BidPrice = 0x4054300000000000,
          Timestamp = 1753726934000000000\<rparr> \<and>
   GetRates (sampleEnv 200 sampleTrades) sampleConfig 1761868800000000000
       (DriverError ''connection refused'')
     = Inl ''failed to save rate to database: failed to save rate: connection refused'' \<and>
   GetRates (sampleEnv 200 sampleTrades) sampleConfig 1761868800000000000 (Scanned 1)
     = Inr \<lparr>resp_TradingPair = ''USDT/RUB'', resp_AskPrice = 0x4054600000000000,
            resp_BidPrice = 0x4054300000000000, resp_Timestamp = 1753726934000000000\<rparr>"
proof -
  let ?env = "sampleEnv 200 sampleTrades"
  let ?rate = "\<lparr>TradingPair = ''USDT/RUB'', AskPrice = 0x4054600000000000, BidPrice = 0x4054300000000000,
          Timestamp = 1753726934000000000\<rparr>"
  have f: "fst (SaveRate (DriverError ''connection refused'')
        (dbRecord ?rate 1761868800000000000)) = Some ''failed to save rate: connection refused''"
    by (simp add: SaveRate_def)
  have ok: "GetRates ?env sampleConfig 1761868800000000000 (Scanned 1)
     = Inr \<lparr>resp_TradingPair = ''USDT/RUB'', resp_AskPrice = 0x4054600000000000,
            resp_BidPrice = 0x4054300000000000, resp_Timestamp = 1753726934000000000\<rparr>"
    by (simp add: GetRates_def sample_rate SaveRate_def)
  from GetRates_all_or_nothing
    [of ?env sampleConfig "DriverError ''connection refused''" 1761868800000000000]
    sample_rate f
  have "GetRates ?env sampleConfig 1761868800000000000 (DriverError ''connection refused'')
     = Inl (''failed to save rate to database: '' @ ''failed to save rate: connection refused'')"
    by blast
  with sample_rate ok show ?thesis by simp
qed

lemma itoa_503: "itoa 503 = ''503''"
  by (simp add: itoa_def digits10.simps)

text \<open>
  Claim C1. \<open>Healthcheck\<close> combines the two probes: a failed database probe gives the
  status \<open>unhealthy\<close> together with an error of the call, whatever the Grinex probe
  would answer; a passed database probe and a failed Grinex probe give \<open>degraded\<close> and
  no error; two passed probes give \<open>healthy\<close>, the message \<open>Service is healthy\<close> and no
  error.
\<close>

theorem Healthcheck_combinator:
  "(\<forall>err. Database_HealthCheck ping = Some err \<longrightarrow>
      Healthcheck env config ping =
        (\<lparr>Status = ''unhealthy'', Message = ''Database health check failed: '' @ err\<rparr>,
         Some (''database health check failed: '' @ err))) \<and>
   (\<forall>err. Database_HealthCheck ping = None \<and> GrinexService_HealthCheck env config = Some err \<longrightarrow>
      Healthcheck env config ping =
        (\<lparr>Status = ''degraded'', Message = ''Grinex API health check failed: '' @ err\<rparr>, None)) \<and>
   (Database_HealthCheck ping = None \<and> GrinexService_HealthCheck env config = None \<longrightarrow>
      Healthcheck env config ping =
        (\<lparr>Status = ''healthy'', Message = ''Service is healthy''\<rparr>, None))"
  by (simp add: Healthcheck_def)

theorem Healthcheck_combinator_witness:
  "Healthcheck (sampleEnv 200 []) sampleConfig (Some ''context deadline exceeded'')
     = (\<lparr>Status = ''unhealthy'',
         Message = ''Database health check failed: context deadline exceeded''\<rparr>,
        Some ''database health check failed: context deadline exceeded'') \<and>
   Healthcheck offlineEnv sampleConfig (Some ''context deadline exceeded'')
     = (\<lparr>Status = ''unhealthy'',
         Message = ''Database health check failed: context deadline exceeded''\<rparr>,
        Some ''database health check failed: context deadline exceeded'') \<and>
   Healthcheck offlineEnv sampleConfig None
     = (\<lparr>Status = ''degraded'',
         Message = ''Grinex API health check failed: health check request failed: dial tcp: connection refused''\<rparr>,
        None) \<and>
   Healthcheck (sampleEnv 503 []) sampleConfig None
     = (\<lparr>Status = ''degraded'',
         Message = ''Grinex API health check failed: health check failed with status 503''\<rparr>,
        None) \<and>
   Healthcheck (sampleEnv 200 []) sampleConfig None
     = (\<lparr>Status = ''healthy'', Message = ''Service is healthy''\<rparr>, None)"
proof -
  have g1: "GrinexService_HealthCheck offlineEnv sampleConfig
      = Some ''health check request failed: dial tcp: connection refused''"
    by (simp add: GrinexService_HealthCheck_def offlineEnv_def)
  have g2: "GrinexService_HealthCheck (sampleEnv 503 []) sampleConfig
      = Some ''health check failed with status 503''"
    by (simp add: GrinexService_HealthCheck_def sampleEnv_def itoa_503)
  have g3: "GrinexService_HealthCheck (sampleEnv 200 []) sampleConfig = None"
    by (simp add: GrinexService_HealthCheck_def sampleEnv_def)
  show ?thesis
    using Healthcheck_combinator [of "Some ''context deadline exceeded''" "sampleEnv 200 []" sampleConfig]
      Healthcheck_combinator [of "Some ''context deadline exceeded''" offlineEnv sampleConfig]
      Healthcheck_combinator [of None offlineEnv sampleConfig]
      Healthcheck_combinator [of None "sampleEnv 503 []" sampleConfig]
      Healthcheck_combinator [of None "sampleEnv 200 []" sampleConfig]
      g1 g2 g3
    by (simp add: Database_HealthCheck_def)
qed

end
